theory Spec2Isabelle
  imports Main "HOL-Library.Word"
begin

section \<open>The DNA sequence comparator: chunked comparison of two files\<close>

text \<open>
  The program is one source file, \<^verbatim>\<open>compare.cpp\<close>, with two functions:
  \<^verbatim>\<open>compare_files\<close>, which reads two files chunk by chunk and compares the chunks,
  and \<^verbatim>\<open>main\<close>, which parses the command line and turns the answer into an exit
  code. The embedding follows the source line by line. What the source obtains from the C++
  library is written out here from the library's documented behaviour: the state flags of
  an input stream, \<^verbatim>\<open>istream::read\<close> and \<^verbatim>\<open>gcount\<close>, \<^verbatim>\<open>memcmp\<close>,
  \<^verbatim>\<open>std::filesystem::file_size\<close> and \<^verbatim>\<open>std::stoul\<close>.

  Scope of the model. A stream delivers the bytes of its file until they are exhausted;
  device errors during a read (\<^verbatim>\<open>badbit\<close>) are not modelled. Sizes are those of a
  64-bit platform: \<^verbatim>\<open>std::size_t\<close> has 64 bits and a \<^verbatim>\<open>std::vector<char>\<close> holds at
  most \<open>2 ^ 63 - 1\<close> bytes. The text written to the standard streams and the measured time
  do not influence any value computed here and are left out.
\<close>

subsection \<open>Bytes, streams and the file system\<close>

type_synonym byte = "8 word"

text \<open>
  An exception that nothing in the program catches ends the process. The kinds that the
  library calls of the program can throw:
\<close>

datatype exception =
  Filesystem_error | Length_error | Bad_alloc | Invalid_argument | Out_of_range

text \<open>
  The file system as the program sees it, through the two library calls it makes on a path.
  \<open>open_read\<close> is the constructor of \<^verbatim>\<open>std::ifstream\<close> in binary mode: \<open>None\<close> when
  the file cannot be opened (\<^verbatim>\<open>is_open()\<close> is false), otherwise the bytes that the stream
  will deliver. \<open>file_size\<close> is \<^verbatim>\<open>std::filesystem::file_size\<close>, which answers from the
  metadata of the path and throws \<^verbatim>\<open>filesystem_error\<close> (\<open>None\<close>) when the path has no
  size to report. The two are independent fields, as they are independent calls: the
  metadata need not agree with what a stream delivers (a file that changes between the two
  calls, a file that is not a regular file).
\<close>

record filesystem =
  open_read :: "string \<Rightarrow> byte list option"
  file_size :: "string \<Rightarrow> nat option"

text \<open>
  A regular file at rest: it can be opened, and its metadata reports the length of its
  contents.
\<close>

definition regular_file :: "filesystem \<Rightarrow> string \<Rightarrow> byte list \<Rightarrow> bool" where
  "regular_file fs path bytes \<longleftrightarrow>
     open_read fs path = Some bytes \<and> file_size fs path = Some (length bytes)"

text \<open>
  An open input stream: the bytes not yet extracted, the two state flags that the program
  can observe, and the count of the last unformatted read.
\<close>

record ifstream =
  pending :: "byte list"
  eofbit :: bool
  failbit :: bool
  gcount :: nat

definition ifstream_open :: "byte list \<Rightarrow> ifstream" where
  "ifstream_open bytes = \<lparr>pending = bytes, eofbit = False, failbit = False, gcount = 0\<rparr>"

definition good :: "ifstream \<Rightarrow> bool" where
  "good f \<longleftrightarrow> \<not> eofbit f \<and> \<not> failbit f"

text \<open>The conversion of a stream to \<^verbatim>\<open>bool\<close>, as in \<^verbatim>\<open>while (file1 && file2)\<close>.\<close>

definition stream_ok :: "ifstream \<Rightarrow> bool" where
  "stream_ok f \<longleftrightarrow> \<not> failbit f"

text \<open>
  \<^verbatim>\<open>f.read(buffer.data(), n)\<close>. A stream that is not good sets \<^verbatim>\<open>failbit\<close>, extracts
  nothing and leaves the buffer alone. Otherwise up to \<open>n\<close> bytes are extracted and stored at
  the start of the buffer, the rest of the buffer keeps what it held; when the bytes run out
  before \<open>n\<close> were extracted, \<^verbatim>\<open>eofbit\<close> and \<^verbatim>\<open>failbit\<close> are both set. The result is the
  stream and the buffer after the call.
\<close>

definition read :: "nat \<Rightarrow> ifstream \<Rightarrow> byte list \<Rightarrow> ifstream \<times> byte list" where
  "read n f buffer =
     (if \<not> good f then (f\<lparr>failbit := True, gcount := 0\<rparr>, buffer)
      else
        let got = take n (pending f);
            short = length got < n
        in (f\<lparr>pending := drop n (pending f),
              eofbit := short,
              failbit := short,
              gcount := length got\<rparr>,
            got @ drop (length got) buffer))"

text \<open>
  \<^verbatim>\<open>memcmp(p, q, k)\<close>: the sign of the first difference among the first \<open>k\<close> bytes, read
  as unsigned values, and 0 when there is none. The program only calls it with \<open>k\<close> within
  both buffers; beyond a buffer's end the model stops comparing.
\<close>

fun memcmp :: "byte list \<Rightarrow> byte list \<Rightarrow> nat \<Rightarrow> int" where
  "memcmp (x # xs) (y # ys) (Suc k) =
     (if x = y then memcmp xs ys k else if x < y then - 1 else 1)"
| "memcmp _ _ _ = 0"

text \<open>
  The memory of the machine, as the program sees it: whether the allocator hands out a block
  of the given number of bytes when the program asks for one of its two buffers.
\<close>

type_synonym memory = "nat \<Rightarrow> bool"

definition max_size :: nat where
  "max_size = 2 ^ 63 - 1"

text \<open>
  \<^verbatim>\<open>std::vector<char> buffer(n)\<close>. More than \<^verbatim>\<open>max_size()\<close> elements throw
  \<^verbatim>\<open>std::length_error\<close>; otherwise a block of \<open>n\<close> bytes is asked of the allocator,
  unless \<open>n\<close> is zero, and \<^verbatim>\<open>std::bad_alloc\<close> is thrown when there is none; otherwise the
  vector holds \<open>n\<close> zero bytes.
\<close>

definition vector_char :: "memory \<Rightarrow> nat \<Rightarrow> exception + byte list" where
  "vector_char mem n =
     (if n > max_size then Inl Length_error
      else if n \<noteq> 0 \<and> \<not> mem n then Inl Bad_alloc
      else Inr (replicate n 0))"

text \<open>
  A buffer size that the program can work with: at least one byte, as the specification asks,
  and such that a buffer of this size can be constructed.
\<close>

definition valid_buffer_size :: "memory \<Rightarrow> nat \<Rightarrow> bool" where
  "valid_buffer_size mem n \<longleftrightarrow> 0 < n \<and> n \<le> max_size \<and> mem n"

subsection \<open>The comparison loop\<close>

text \<open>
  What the program does to the contents of the files, in order: the two reads of an
  iteration with the number of bytes each obtained, and the comparison of the buffers with
  the number of bytes compared.
\<close>

datatype event = Read1 nat | Read2 nat | Memcmp nat

record cmp_state =
  file1 :: ifstream
  file2 :: ifstream
  buffer1 :: "byte list"
  buffer2 :: "byte list"
  trace :: "event list"

text \<open>How one pass through the body of the loop ends.\<close>

datatype flow = Continue cmp_state | Break cmp_state | Return bool cmp_state

definition iteration :: "nat \<Rightarrow> cmp_state \<Rightarrow> flow" where
  "iteration buffer_size_bytes s =
     (let (f1, b1) = read buffer_size_bytes (file1 s) (buffer1 s);
          (f2, b2) = read buffer_size_bytes (file2 s) (buffer2 s);
          bytes_read1 = gcount f1;
          bytes_read2 = gcount f2;
          s1 = s\<lparr>file1 := f1, file2 := f2, buffer1 := b1, buffer2 := b2,
                 trace := trace s @ [Read1 bytes_read1, Read2 bytes_read2]\<rparr>
      in if bytes_read1 \<noteq> bytes_read2 then Return False s1
         else if bytes_read1 = 0 then Break s1
         else
           let s2 = s1\<lparr>trace := trace s1 @ [Memcmp bytes_read1]\<rparr>
           in if memcmp b1 b2 bytes_read1 \<noteq> 0 then Return False s2 else Continue s2)"

text \<open>
  \<^verbatim>\<open>while (file1 && file2) { ... }\<close> and the \<^verbatim>\<open>return true\<close> after it. The result is
  the boolean that \<^verbatim>\<open>compare_files\<close> returns and the state in which it returns. That
  the recursion ends on every state is proved below, before anything is proved about it.
\<close>

function loop :: "nat \<Rightarrow> cmp_state \<Rightarrow> bool \<times> cmp_state" where
  "loop buffer_size_bytes s =
     (if stream_ok (file1 s) \<and> stream_ok (file2 s) then
        (case iteration buffer_size_bytes s of
           Return b s' \<Rightarrow> (b, s')
         | Break s' \<Rightarrow> (True, s')
         | Continue s' \<Rightarrow> loop buffer_size_bytes s')
      else (True, s))"
  by pat_completeness auto

subsection \<open>The function \<^verbatim>\<open>compare_files\<close>\<close>

text \<open>
  The result is what the call does, \<open>Inr\<close> of the returned boolean or \<open>Inl\<close> of the
  exception that leaves it, together with the trace of its reads and comparisons. The steps
  are those of the source, in its order: open both streams and test them, ask the two sizes
  and compare them, construct the two buffers, loop. Once the buffers are constructed the
  buffer size is at most \<open>2 ^ 63 - 1\<close>, so its conversion to \<^verbatim>\<open>std::streamsize\<close> in the
  calls of \<^verbatim>\<open>read\<close> keeps its value.
\<close>

definition compare_files ::
  "filesystem \<Rightarrow> memory \<Rightarrow> string \<Rightarrow> string \<Rightarrow> nat \<Rightarrow>
   (exception + bool) \<times> event list" where
  "compare_files fs mem file1_path file2_path buffer_size_bytes =
     (case (open_read fs file1_path, open_read fs file2_path) of
        (Some bytes1, Some bytes2) \<Rightarrow>
          (case file_size fs file1_path of
             None \<Rightarrow> (Inl Filesystem_error, [])
           | Some size1 \<Rightarrow>
               (case file_size fs file2_path of
                  None \<Rightarrow> (Inl Filesystem_error, [])
                | Some size2 \<Rightarrow>
                    if size1 \<noteq> size2 then (Inr False, [])
                    else
                      (case vector_char mem buffer_size_bytes of
                         Inl e \<Rightarrow> (Inl e, [])
                       | Inr buf1 \<Rightarrow>
                           (case vector_char mem buffer_size_bytes of
                              Inl e \<Rightarrow> (Inl e, [])
                            | Inr buf2 \<Rightarrow>
                                let (equal, s) =
                                      loop buffer_size_bytes
                                        \<lparr>file1 = ifstream_open bytes1,
                                         file2 = ifstream_open bytes2,
                                         buffer1 = buf1,
                                         buffer2 = buf2,
                                         trace = []\<rparr>
                                in (Inr equal, trace s)))))
      | _ \<Rightarrow> (Inr False, []))"

subsection \<open>The command line\<close>

text \<open>
  \<^verbatim>\<open>std::stoul(str)\<close> in base 10, as \<^verbatim>\<open>strtoul\<close> reads it in the C locale: leading
  white space is skipped, one sign is accepted, the longest run of decimal digits is the
  number and whatever follows is ignored. No digit at all throws \<^verbatim>\<open>invalid_argument\<close>,
  a number above the largest \<^verbatim>\<open>unsigned long\<close> throws \<^verbatim>\<open>out_of_range\<close>, and a minus
  sign negates the number modulo \<open>2 ^ 64\<close>.
\<close>

definition isspace :: "char \<Rightarrow> bool" where
  "isspace c \<longleftrightarrow> (let v = (of_char c :: nat) in v = 32 \<or> (9 \<le> v \<and> v \<le> 13))"

definition isdigit :: "char \<Rightarrow> bool" where
  "isdigit c \<longleftrightarrow> (let v = (of_char c :: nat) in 48 \<le> v \<and> v \<le> 57)"

definition digits_value :: "string \<Rightarrow> int" where
  "digits_value ds = foldl (\<lambda>acc c. 10 * acc + (of_char c - 48)) 0 ds"

definition stoul :: "string \<Rightarrow> exception + 64 word" where
  "stoul str =
     (let s = dropWhile isspace str;
          negative = (s \<noteq> [] \<and> hd s = CHR ''-'');
          signed = (s \<noteq> [] \<and> (hd s = CHR ''-'' \<or> hd s = CHR ''+''));
          ds = takeWhile isdigit (if signed then tl s else s);
          v = digits_value ds
      in if ds = [] then Inl Invalid_argument
         else if 2 ^ 64 \<le> v then Inl Out_of_range
         else Inr (if negative then - word_of_int v else word_of_int v))"

text \<open>
  \<^verbatim>\<open>main\<close>, with \<open>argv\<close> the list of all \<^verbatim>\<open>argc\<close> arguments, the program's name
  first. The result is the exit code that \<^verbatim>\<open>main\<close> returns, or the exception that ends
  the process. The buffer size is computed in \<^verbatim>\<open>std::size_t\<close>, 64 bits wide, so the
  product wraps around.
\<close>

definition main :: "filesystem \<Rightarrow> memory \<Rightarrow> string list \<Rightarrow> exception + int" where
  "main fs mem argv =
     (let argc = length argv
      in if argc < 3 then Inr 1
         else
           let file1 = argv ! 1;
               file2 = argv ! 2
           in case (if argc \<ge> 4 then stoul (argv ! 3) else Inr 8) of
                Inl e \<Rightarrow> Inl e
              | Inr buffer_size_mb \<Rightarrow>
                  let buffer_size_bytes = buffer_size_mb * 1024 * 1024
                  in case fst (compare_files fs mem file1 file2 (unat buffer_size_bytes)) of
                       Inl e \<Rightarrow> Inl e
                     | Inr equal \<Rightarrow> Inr (if equal then 0 else 2))"

text \<open>
  The buffer size in bytes that \<^verbatim>\<open>main\<close> hands to \<^verbatim>\<open>compare_files\<close>, or the
  exception that parsing the third argument throws: the same lines of \<^verbatim>\<open>main\<close> again,
  on their own, to state what \<^verbatim>\<open>main\<close> returns.
\<close>

definition requested_buffer_size :: "string list \<Rightarrow> exception + nat" where
  "requested_buffer_size argv =
     (case (if length argv \<ge> 4 then stoul (argv ! 3) else Inr 8) of
        Inl e \<Rightarrow> Inl e
      | Inr buffer_size_mb \<Rightarrow> Inr (unat (buffer_size_mb * 1024 * 1024)))"

subsection \<open>Concrete inputs\<close>

text \<open>
  A small file system for running the definitions. Three sequence files of five bases each,
  the third a copy of the first; a shorter one; two empty files; \<open>stale.txt\<close>, whose
  metadata still reports five bytes while a stream delivers three, and \<open>acg.txt\<close>, a
  regular file with the same three bytes; \<open>seqs\<close>, a directory, which a stream opens but
  which has no size; every other path does not exist.
\<close>

definition example_fs :: filesystem where
  "example_fs =
     \<lparr>open_read = (\<lambda>path.
        if path = ''dna1.txt'' then Some [65, 67, 71, 84, 65]
        else if path = ''dna2.txt'' then Some [65, 67, 71, 84, 84]
        else if path = ''dna3.txt'' then Some [65, 67, 71, 84, 65]
        else if path = ''short.txt'' then Some [65, 67]
        else if path = ''empty1.txt'' then Some []
        else if path = ''empty2.txt'' then Some []
        else if path = ''stale.txt'' then Some [65, 67, 71]
        else if path = ''acg.txt'' then Some [65, 67, 71]
        else if path = ''seqs'' then Some []
        else None),
      file_size = (\<lambda>path.
        if path = ''dna1.txt'' then Some 5
        else if path = ''dna2.txt'' then Some 5
        else if path = ''dna3.txt'' then Some 5
        else if path = ''short.txt'' then Some 2
        else if path = ''empty1.txt'' then Some 0
        else if path = ''empty2.txt'' then Some 0
        else if path = ''stale.txt'' then Some 5
        else if path = ''acg.txt'' then Some 3
        else None)\<rparr>"

text \<open>A machine whose allocator hands out blocks of up to one gibibyte.\<close>

definition example_mem :: memory where
  "example_mem n \<longleftrightarrow> n \<le> 1073741824"

text \<open>
  The state in which \<^verbatim>\<open>compare_files\<close> enters its loop, once the two buffers are
  constructed.
\<close>

definition entry_state :: "byte list \<Rightarrow> byte list \<Rightarrow> nat \<Rightarrow> cmp_state" where
  "entry_state bytes1 bytes2 buffer_size_bytes =
     \<lparr>file1 = ifstream_open bytes1,
      file2 = ifstream_open bytes2,
      buffer1 = replicate buffer_size_bytes 0,
      buffer2 = replicate buffer_size_bytes 0,
      trace = []\<rparr>"

text \<open>
  The invariant of the loop, for the proofs: a stream is good, or it has failed with nothing
  left to deliver, and the two streams have failed together or not at all.
\<close>

definition consistent :: "cmp_state \<Rightarrow> bool" where
  "consistent s \<longleftrightarrow>
     (good (file1 s) \<or> failbit (file1 s) \<and> pending (file1 s) = []) \<and>
     (good (file2 s) \<or> failbit (file2 s) \<and> pending (file2 s) = []) \<and>
     (failbit (file1 s) \<longleftrightarrow> failbit (file2 s))"

section \<open>Properties\<close>

subsection \<open>The loop ends\<close>

text \<open>
  An iteration that goes round again has obtained at least one byte from the first stream,
  so the bytes that the first stream has left become fewer.
\<close>

lemma read_pending_less:
  "read n f buffer = (f', buffer') \<Longrightarrow> gcount f' \<noteq> 0 \<Longrightarrow>
   length (pending f') < length (pending f)"
  by (auto simp: read_def Let_def split: if_splits)

lemma iteration_Continue_less:
  "iteration n s = Continue s' \<Longrightarrow>
   length (pending (file1 s')) < length (pending (file1 s))"
  by (auto simp: iteration_def Let_def split: prod.splits if_splits
           dest: read_pending_less)

termination loop
  by (relation "measure (\<lambda>(n, s). length (pending (file1 s)))")
     (auto dest: iteration_Continue_less)

text \<open>
  The equation of the loop rewrites a call of it into another one: it is used where a proof
  names the state, and never by default.
\<close>

declare loop.simps [simp del]

subsection \<open>Library calls\<close>

lemma memcmp_eq_0_iff:
  "k \<le> length xs \<Longrightarrow> k \<le> length ys \<Longrightarrow> memcmp xs ys k = 0 \<longleftrightarrow> take k xs = take k ys"
  by (induction xs ys k rule: memcmp.induct) auto

lemma read_good:
  assumes "good f"
  shows "read n f buffer =
    (f\<lparr>pending := drop n (pending f),
       eofbit := length (pending f) < n,
       failbit := length (pending f) < n,
       gcount := min (length (pending f)) n\<rparr>,
     take n (pending f) @ drop (min (length (pending f)) n) buffer)"
  using assms by (simp add: read_def Let_def min_less_iff_disj)

lemma read_gcount_le:
  "read n f buffer = (f', buffer') \<Longrightarrow> gcount f' \<le> length buffer'"
  by (auto simp: read_def Let_def split: if_splits)

lemma take_chunk_eq:
  "take (min (length xs) n) (take n xs @ rest) = take n xs"
  by (simp add: min_def)

lemma vector_char_zero: "vector_char mem 0 = Inr []"
  by (simp add: vector_char_def)

lemma vector_char_valid:
  "valid_buffer_size mem n \<Longrightarrow> vector_char mem n = Inr (replicate n 0)"
  by (simp add: vector_char_def valid_buffer_size_def)

lemma vector_char_cases:
  obtains e where "vector_char mem n = Inl e" | "vector_char mem n = Inr (replicate n 0)"
  by (cases "n > max_size"; cases "n \<noteq> 0 \<and> \<not> mem n") (simp_all add: vector_char_def)

lemma vector_char_Inr: "vector_char mem n = Inr buf \<Longrightarrow> buf = replicate n 0"
  by (simp add: vector_char_def split: if_splits)

subsection \<open>One iteration on good streams\<close>

lemma iteration_good:
  fixes n :: nat and s :: cmp_state
  assumes "good (file1 s)" "good (file2 s)"
  defines "k1 \<equiv> min (length (pending (file1 s))) n"
      and "k2 \<equiv> min (length (pending (file2 s))) n"
  defines "s1 \<equiv> s\<lparr>file1 := (file1 s)\<lparr>pending := drop n (pending (file1 s)),
                       eofbit := length (pending (file1 s)) < n,
                       failbit := length (pending (file1 s)) < n, gcount := k1\<rparr>,
                    file2 := (file2 s)\<lparr>pending := drop n (pending (file2 s)),
                       eofbit := length (pending (file2 s)) < n,
                       failbit := length (pending (file2 s)) < n, gcount := k2\<rparr>,
                    buffer1 := take n (pending (file1 s)) @ drop k1 (buffer1 s),
                    buffer2 := take n (pending (file2 s)) @ drop k2 (buffer2 s),
                    trace := trace s @ [Read1 k1, Read2 k2]\<rparr>"
  shows "iteration n s =
     (if k1 \<noteq> k2 then Return False s1
      else if k1 = 0 then Break s1
      else if take n (pending (file1 s)) \<noteq> take n (pending (file2 s))
           then Return False (s1\<lparr>trace := trace s1 @ [Memcmp k1]\<rparr>)
           else Continue (s1\<lparr>trace := trace s1 @ [Memcmp k1]\<rparr>))"
proof -
  have m: "memcmp (take n (pending (file1 s)) @ drop k1 (buffer1 s))
                  (take n (pending (file2 s)) @ drop k1 (buffer2 s)) k1 = 0
           \<longleftrightarrow> take n (pending (file1 s)) = take n (pending (file2 s))" if "k1 = k2"
  proof -
    have "k1 \<le> length (take n (pending (file1 s)) @ drop k1 (buffer1 s))"
      by (simp add: k1_def)
    moreover have "k1 \<le> length (take n (pending (file2 s)) @ drop k1 (buffer2 s))"
      using that by (simp add: k1_def k2_def)
    ultimately have "memcmp (take n (pending (file1 s)) @ drop k1 (buffer1 s))
                  (take n (pending (file2 s)) @ drop k1 (buffer2 s)) k1 = 0 \<longleftrightarrow>
         take k1 (take n (pending (file1 s)) @ drop k1 (buffer1 s)) =
         take k1 (take n (pending (file2 s)) @ drop k1 (buffer2 s))"
      by (rule memcmp_eq_0_iff)
    also have "take k1 (take n (pending (file1 s)) @ drop k1 (buffer1 s)) = take n (pending (file1 s))"
      unfolding k1_def by (rule take_chunk_eq)
    also have "take k1 (take n (pending (file2 s)) @ drop k1 (buffer2 s)) = take n (pending (file2 s))"
      unfolding that k2_def by (rule take_chunk_eq)
    finally show ?thesis .
  qed
  show ?thesis
    using assms(1,2) m
    by (simp add: iteration_def read_good Let_def k1_def [symmetric] k2_def [symmetric] s1_def)
qed

subsection \<open>The loop decides equality of what the streams deliver\<close>

lemma loop_good:
  assumes "0 < n" "consistent s"
  shows "fst (loop n s) \<longleftrightarrow> pending (file1 s) = pending (file2 s)"
  using assms
proof (induction n s rule: loop.induct)
  case (1 n s)
  let ?p1 = "pending (file1 s)" and ?p2 = "pending (file2 s)"
  show ?case
  proof (cases "stream_ok (file1 s) \<and> stream_ok (file2 s)")
    case False
    with "1.prems" show ?thesis
      by (auto simp: loop.simps [of n s] consistent_def stream_ok_def good_def)
  next
    case True
    with "1.prems" have g: "good (file1 s)" "good (file2 s)"
      by (auto simp: consistent_def stream_ok_def)
    note it = iteration_good [OF g, of n]
    consider (differ) "min (length ?p1) n \<noteq> min (length ?p2) n"
      | (eof) "min (length ?p1) n = min (length ?p2) n" "min (length ?p1) n = 0"
      | (mismatch) "min (length ?p1) n = min (length ?p2) n" "min (length ?p1) n \<noteq> 0"
          "take n ?p1 \<noteq> take n ?p2"
      | (match) "min (length ?p1) n = min (length ?p2) n" "min (length ?p1) n \<noteq> 0"
          "take n ?p1 = take n ?p2"
      by blast
    then show ?thesis
    proof cases
      case differ
      then have "length ?p1 \<noteq> length ?p2" by auto
      then have "?p1 \<noteq> ?p2" by auto
      with differ True it show ?thesis by (simp add: loop.simps [of n s])
    next
      case eof
      with \<open>0 < n\<close> have "?p1 = []" "?p2 = []" by (auto simp: min_def split: if_splits)
      with eof True it show ?thesis by (simp add: loop.simps [of n s])
    next
      case mismatch
      then have "?p1 \<noteq> ?p2" by auto
      with mismatch True it show ?thesis by (simp add: loop.simps [of n s])
    next
      case match
      obtain s' where s': "iteration n s = Continue s'"
        and p1: "pending (file1 s') = drop n ?p1" and p2: "pending (file2 s') = drop n ?p2"
        and f1: "failbit (file1 s') = (length ?p1 < n)" "eofbit (file1 s') = (length ?p1 < n)"
        and f2: "failbit (file2 s') = (length ?p2 < n)" "eofbit (file2 s') = (length ?p2 < n)"
        using match it by simp
      from match have len: "length ?p1 < n \<longleftrightarrow> length ?p2 < n"
        by (auto simp: min_def split: if_splits)
      have "consistent s'"
        using p1 p2 f1 f2 len by (auto simp: consistent_def good_def)
      with "1.IH" [OF True s'] \<open>0 < n\<close>
      have "fst (loop n s') \<longleftrightarrow> drop n ?p1 = drop n ?p2" by (simp add: p1 p2)
      moreover have "loop n s = loop n s'"
        using True s' by (simp add: loop.simps [of n s])
      moreover have "?p1 = ?p2 \<longleftrightarrow> drop n ?p1 = drop n ?p2"
        using match(3) by (metis append_take_drop_id)
      ultimately show ?thesis by simp
    qed
  qed
qed

lemma consistent_entry_state: "consistent (entry_state bytes1 bytes2 n)"
  by (simp add: consistent_def entry_state_def ifstream_open_def good_def)

lemma loop_entry_state:
  "0 < n \<Longrightarrow> fst (loop n (entry_state bytes1 bytes2 n)) \<longleftrightarrow> bytes1 = bytes2"
  using loop_good [OF _ consistent_entry_state, of n bytes1 bytes2]
  by (simp add: entry_state_def ifstream_open_def)

text \<open>With a buffer of no bytes, the first iteration obtains nothing and leaves the loop.\<close>

lemma loop_zero_entry_state:
  "loop 0 (entry_state bytes1 bytes2 0) =
     (True, \<lparr>file1 = (ifstream_open bytes1), file2 = (ifstream_open bytes2),
             buffer1 = [], buffer2 = [], trace = [Read1 0, Read2 0]\<rparr>)"
  by (subst loop.simps)
     (simp add: iteration_def read_def entry_state_def ifstream_open_def good_def stream_ok_def)

lemma loop_empty_entry_state:
  "fst (loop n (entry_state [] [] n)) \<and>
   trace (snd (loop n (entry_state [] [] n))) = [Read1 0, Read2 0]"
proof -
  let ?s = "entry_state [] [] n"
  have g: "good (file1 ?s)" "good (file2 ?s)"
    by (simp_all add: entry_state_def ifstream_open_def good_def)
  have p: "pending (file1 ?s) = []" "pending (file2 ?s) = []" "trace ?s = []"
    by (simp_all add: entry_state_def ifstream_open_def)
  obtain s' where "iteration n ?s = Break s'" "trace s' = [Read1 0, Read2 0]"
    using iteration_good [OF g, of n] by (simp add: p)
  moreover have "stream_ok (file1 ?s) \<and> stream_ok (file2 ?s)"
    using g by (simp add: good_def stream_ok_def)
  ultimately show ?thesis
    by (simp add: loop.simps [of n ?s])
qed

subsection \<open>Unfolding \<^verbatim>\<open>compare_files\<close>\<close>

lemma compare_files_not_open:
  "open_read fs file1_path = None \<or> open_read fs file2_path = None \<Longrightarrow>
   compare_files fs mem file1_path file2_path n = (Inr False, [])"
  by (auto simp: compare_files_def split: option.splits)

lemma compare_files_open:
  assumes "open_read fs file1_path = Some bytes1" "open_read fs file2_path = Some bytes2"
  shows "compare_files fs mem file1_path file2_path n =
     (case file_size fs file1_path of
        None \<Rightarrow> (Inl Filesystem_error, [])
      | Some size1 \<Rightarrow>
          (case file_size fs file2_path of
             None \<Rightarrow> (Inl Filesystem_error, [])
           | Some size2 \<Rightarrow>
               if size1 \<noteq> size2 then (Inr False, [])
               else
                 (case vector_char mem n of
                    Inl e \<Rightarrow> (Inl e, [])
                  | Inr buf \<Rightarrow>
                      (Inr (fst (loop n (entry_state bytes1 bytes2 n))),
                       trace (snd (loop n (entry_state bytes1 bytes2 n)))))))"
proof (rule vector_char_cases [of mem n])
  fix e assume "vector_char mem n = Inl e"
  with assms show ?thesis
    by (simp add: compare_files_def split: option.splits)
next
  assume "vector_char mem n = Inr (replicate n 0)"
  with assms show ?thesis
    by (simp add: compare_files_def entry_state_def split_beta split: option.splits)
qed

lemma compare_files_sizes:
  assumes "open_read fs file1_path = Some bytes1" "open_read fs file2_path = Some bytes2"
    and "file_size fs file1_path = Some size1" "file_size fs file2_path = Some size2"
    and "valid_buffer_size mem n"
  shows "fst (compare_files fs mem file1_path file2_path n) =
         Inr (size1 = size2 \<and> bytes1 = bytes2)"
proof -
  from assms(5) have "0 < n" by (simp add: valid_buffer_size_def)
  with assms show ?thesis
    by (simp add: compare_files_open vector_char_valid loop_entry_state)
qed

subsection \<open>The result of \<^verbatim>\<open>compare_files\<close> in closed form\<close>

text \<open>
  Where the two buffers are constructed: with a buffer of at least one byte the call answers
  whether the streams deliver the same bytes, with a buffer of no bytes it answers true.
  Before that, it has answered false if a file does not open or the metadata sizes differ.
\<close>

lemma compare_files_positive:
  assumes "0 < n"
  shows "fst (compare_files fs mem file1_path file2_path n) =
     (case (open_read fs file1_path, open_read fs file2_path) of
        (Some bytes1, Some bytes2) \<Rightarrow>
          (case (file_size fs file1_path, file_size fs file2_path) of
             (Some size1, Some size2) \<Rightarrow>
               if size1 \<noteq> size2 then Inr False
               else (case vector_char mem n of
                       Inl e \<Rightarrow> Inl e
                     | Inr buf \<Rightarrow> Inr (bytes1 = bytes2))
           | _ \<Rightarrow> Inl Filesystem_error)
      | _ \<Rightarrow> Inr False)"
  using assms
  by (auto simp: compare_files_not_open compare_files_open loop_entry_state
           split: option.splits sum.splits)

lemma compare_files_zero:
  "compare_files fs mem file1_path file2_path 0 =
     (case (open_read fs file1_path, open_read fs file2_path) of
        (Some bytes1, Some bytes2) \<Rightarrow>
          (case (file_size fs file1_path, file_size fs file2_path) of
             (Some size1, Some size2) \<Rightarrow>
               if size1 = size2 then (Inr True, [Read1 0, Read2 0]) else (Inr False, [])
           | _ \<Rightarrow> (Inl Filesystem_error, []))
      | _ \<Rightarrow> (Inr False, []))"
  by (auto simp: compare_files_not_open compare_files_open loop_zero_entry_state
           vector_char_zero split: option.splits)

subsection \<open>Unfolding \<^verbatim>\<open>main\<close>\<close>

lemma main_unfold:
  "main fs mem argv =
     (if length argv < 3 then Inr 1
      else case requested_buffer_size argv of
             Inl e \<Rightarrow> Inl e
           | Inr n \<Rightarrow>
               (case fst (compare_files fs mem (argv ! 1) (argv ! 2) n) of
                  Inl e \<Rightarrow> Inl e
                | Inr equal \<Rightarrow> Inr (if equal then 0 else 2)))"
  by (simp add: main_def requested_buffer_size_def Let_def split: sum.splits)

lemma requested_buffer_size_default:
  "length argv = 3 \<Longrightarrow> requested_buffer_size argv = Inr 8388608"
  by (simp add: requested_buffer_size_def)

subsection \<open>Runs of the program\<close>

text \<open>
  A file whose metadata is stale passes the size check and is caught by the first reads,
  which obtain different numbers of bytes.
\<close>

lemma compare_files_stale_metadata:
  "compare_files example_fs example_mem ''stale.txt'' ''dna1.txt'' 4 =
     (Inr False, [Read1 3, Read2 4])"
proof -
  have "loop 4 (entry_state [65, 67, 71] [65, 67, 71, 84, 65] 4) =
     (False,
      \<lparr>file1 = \<lparr>pending = [], eofbit = True, failbit = True, gcount = 3\<rparr>,
       file2 = \<lparr>pending = [65], eofbit = False, failbit = False, gcount = 4\<rparr>,
       buffer1 = [65, 67, 71, 0], buffer2 = [65, 67, 71, 84],
       trace = [Read1 3, Read2 4]\<rparr>)"
    by (simp add: entry_state_def loop.simps iteration_def read_def good_def stream_ok_def
        ifstream_open_def eval_nat_numeral)
  moreover have "vector_char example_mem 4 = Inr (replicate 4 0)"
    by (simp add: vector_char_def max_size_def example_mem_def)
  ultimately show ?thesis
    by (simp add: compare_files_open example_fs_def)
qed

text \<open>A buffer size that is not a number, and a path that is a directory, end the process.\<close>

lemma main_buffer_size_not_a_number:
  "main example_fs example_mem [''./compare'', ''dna1.txt'', ''dna2.txt'', ''eight''] =
     Inl Invalid_argument"
  by (simp add: main_unfold requested_buffer_size_def stoul_def isspace_def isdigit_def
      digits_value_def)

lemma main_directory:
  "main example_fs example_mem [''./compare'', ''dna1.txt'', ''seqs''] = Inl Filesystem_error"
  by (simp add: main_unfold requested_buffer_size_default compare_files_positive example_fs_def)

text \<open>
  So does a buffer size beyond what a vector holds, once the sizes of the two files have
  been found equal; \<open>-1\<close> is read as the largest \<^verbatim>\<open>unsigned long\<close>, and the product with
  \<open>2 ^ 20\<close> wraps to \<open>2 ^ 64 - 2 ^ 20\<close> bytes. And so does a buffer size that the machine has
  no memory for.
\<close>

lemma main_buffer_size_minus_one:
  "main example_fs example_mem [''./compare'', ''dna1.txt'', ''dna3.txt'', ''-1''] =
     Inl Length_error"
  by (simp add: main_unfold requested_buffer_size_def stoul_def isspace_def isdigit_def
      digits_value_def compare_files_positive example_fs_def vector_char_def max_size_def)

lemma main_buffer_size_too_much:
  "main example_fs example_mem [''./compare'', ''dna1.txt'', ''dna3.txt'', ''2048''] =
     Inl Bad_alloc"
  by (simp add: main_unfold requested_buffer_size_def stoul_def isspace_def isdigit_def
      digits_value_def compare_files_positive example_fs_def vector_char_def max_size_def
      example_mem_def)

section \<open>The claims\<close>

text \<open>
  C1. For two regular files, which can be opened for reading and whose metadata report the
  number of bytes that a stream delivers, and for a buffer size of at least one byte with
  which the two buffers can be constructed, \<^verbatim>\<open>compare_files\<close> returns true if and only
  if the two files have the same bytes.
\<close>

theorem compare_files_correct:
  assumes "regular_file fs file1_path bytes1"
    and "regular_file fs file2_path bytes2"
    and "valid_buffer_size mem n"
  shows "fst (compare_files fs mem file1_path file2_path n) = Inr (bytes1 = bytes2)"
proof -
  from assms(1,2) have
    "open_read fs file1_path = Some bytes1" "open_read fs file2_path = Some bytes2"
    "file_size fs file1_path = Some (length bytes1)"
    "file_size fs file2_path = Some (length bytes2)"
    by (simp_all add: regular_file_def)
  from compare_files_sizes [OF this assms(3)] show ?thesis
    by auto
qed

theorem compare_files_correct_witness:
  "regular_file example_fs ''dna1.txt'' [65, 67, 71, 84, 65] \<and>
   regular_file example_fs ''dna2.txt'' [65, 67, 71, 84, 84] \<and>
   regular_file example_fs ''dna3.txt'' [65, 67, 71, 84, 65] \<and>
   valid_buffer_size example_mem 2 \<and>
   fst (compare_files example_fs example_mem ''dna1.txt'' ''dna2.txt'' 2) = Inr False \<and>
   fst (compare_files example_fs example_mem ''dna1.txt'' ''dna3.txt'' 2) = Inr True"
  using compare_files_correct [of example_fs "''dna1.txt''" "[65, 67, 71, 84, 65]"
          "''dna2.txt''" "[65, 67, 71, 84, 84]" example_mem 2]
        compare_files_correct [of example_fs "''dna1.txt''" "[65, 67, 71, 84, 65]"
          "''dna3.txt''" "[65, 67, 71, 84, 65]" example_mem 2]
  by (simp add: regular_file_def example_fs_def valid_buffer_size_def max_size_def
      example_mem_def)

text \<open>
  For every pair of files that open and every positive buffer size, the equivalence fails,
  in two ways. With \<open>2 ^ 63\<close> bytes of buffer, two files with the same bytes are not
  reported equal: constructing the first buffer throws. And two files that deliver the same
  bytes are reported different when their metadata sizes differ, as they do when one of
  them is not a regular file at rest: the size check answers before anything is read.
\<close>

theorem compare_files_correct_counterexample:
  "open_read example_fs ''dna1.txt'' = Some [65, 67, 71, 84, 65] \<and>
   open_read example_fs ''dna3.txt'' = Some [65, 67, 71, 84, 65] \<and>
   (0::nat) < 2 ^ 63 \<and>
   fst (compare_files example_fs example_mem ''dna1.txt'' ''dna3.txt'' (2 ^ 63)) =
     Inl Length_error \<and>
   open_read example_fs ''stale.txt'' = Some [65, 67, 71] \<and>
   open_read example_fs ''acg.txt'' = Some [65, 67, 71] \<and>
   (0::nat) < 2 \<and>
   compare_files example_fs example_mem ''stale.txt'' ''acg.txt'' 2 = (Inr False, [])"
  by (simp add: compare_files_open example_fs_def vector_char_def max_size_def)

text \<open>
  C2. When either path cannot be opened for reading, \<^verbatim>\<open>compare_files\<close> returns false,
  whatever the buffer size and whatever the other path is: it returns, no exception leaves
  it, and it has read nothing. In the second example the other path is a directory, for
  which asking the size would throw; the call returns before it asks.
\<close>

theorem compare_files_cannot_open:
  assumes "open_read fs file1_path = None \<or> open_read fs file2_path = None"
  shows "compare_files fs mem file1_path file2_path n = (Inr False, [])"
  using assms by (rule compare_files_not_open)

theorem compare_files_cannot_open_witness:
  "(open_read example_fs ''dna1.txt'' = None \<or> open_read example_fs ''missing.txt'' = None) \<and>
   compare_files example_fs example_mem ''dna1.txt'' ''missing.txt'' 8 = (Inr False, []) \<and>
   (open_read example_fs ''missing.txt'' = None \<or> open_read example_fs ''seqs'' = None) \<and>
   file_size example_fs ''seqs'' = None \<and>
   compare_files example_fs example_mem ''missing.txt'' ''seqs'' 8 = (Inr False, [])"
  using compare_files_cannot_open [of example_fs "''dna1.txt''" "''missing.txt''" example_mem 8]
        compare_files_cannot_open [of example_fs "''missing.txt''" "''seqs''" example_mem 8]
  by (simp add: example_fs_def)

text \<open>
  C3. When both files can be opened and the sizes that the metadata reports differ,
  \<^verbatim>\<open>compare_files\<close> returns false with an empty trace: no read was made on either
  stream.
\<close>

theorem compare_files_size_mismatch:
  assumes "open_read fs file1_path = Some bytes1"
    and "open_read fs file2_path = Some bytes2"
    and "file_size fs file1_path = Some size1"
    and "file_size fs file2_path = Some size2"
    and "size1 \<noteq> size2"
  shows "compare_files fs mem file1_path file2_path n = (Inr False, [])"
  using assms by (simp add: compare_files_open)

theorem compare_files_size_mismatch_witness:
  "open_read example_fs ''dna1.txt'' = Some [65, 67, 71, 84, 65] \<and>
   open_read example_fs ''short.txt'' = Some [65, 67] \<and>
   file_size example_fs ''dna1.txt'' = Some 5 \<and>
   file_size example_fs ''short.txt'' = Some 2 \<and> (5::nat) \<noteq> 2 \<and>
   compare_files example_fs example_mem ''dna1.txt'' ''short.txt'' 4 = (Inr False, [])"
  using compare_files_size_mismatch [of example_fs "''dna1.txt''" "[65, 67, 71, 84, 65]"
          "''short.txt''" "[65, 67]" 5 2 example_mem 4]
  by (simp add: example_fs_def)

text \<open>
  C4. In every iteration of the loop, that is in every state in which the loop condition
  holds: let the two reads obtain \<open>gcount f1\<close> and \<open>gcount f2\<close> bytes and let \<open>k\<close> be the
  smaller of the two. If the first \<open>k\<close> bytes of the two buffers differ, the function
  returns false in the state right after these two reads, so nothing more is read from
  either stream. And the comparison looks at these \<open>k\<close> bytes only: when both reads obtained
  the same number of bytes, not zero, and the first \<open>k\<close> bytes agree, the iteration goes
  round again, whatever the buffers hold beyond them. (\<^verbatim>\<open>memcmp\<close> itself is called in
  the iterations whose two reads obtained the same number of bytes, not zero; in the others
  the function has returned or left the loop before.)
\<close>

theorem iteration_mismatch_returns:
  assumes "stream_ok (file1 s) \<and> stream_ok (file2 s)"
    and "read n (file1 s) (buffer1 s) = (f1, b1)"
    and "read n (file2 s) (buffer2 s) = (f2, b2)"
    and "k = min (gcount f1) (gcount f2)"
  shows "(take k b1 \<noteq> take k b2 \<longrightarrow>
            loop n s =
              (False,
               s\<lparr>file1 := f1, file2 := f2, buffer1 := b1, buffer2 := b2,
                 trace := trace s @ Read1 (gcount f1) # Read2 (gcount f2) #
                            (if gcount f1 = gcount f2 then [Memcmp k] else [])\<rparr>)) \<and>
         (gcount f1 = gcount f2 \<and> k \<noteq> 0 \<and> take k b1 = take k b2 \<longrightarrow>
            iteration n s =
              Continue
               (s\<lparr>file1 := f1, file2 := f2, buffer1 := b1, buffer2 := b2,
                  trace := trace s @ [Read1 k, Read2 k, Memcmp k]\<rparr>))"
proof -
  have le: "gcount f1 \<le> length b1" "gcount f2 \<le> length b2"
    using assms(2,3) by (auto dest: read_gcount_le)
  have m: "memcmp b1 b2 k = 0 \<longleftrightarrow> take k b1 = take k b2" if "gcount f1 = gcount f2"
    using le that assms(4) by (intro memcmp_eq_0_iff) simp_all
  have it: "iteration n s =
     (let s1 = s\<lparr>file1 := f1, file2 := f2, buffer1 := b1, buffer2 := b2,
                 trace := trace s @ [Read1 (gcount f1), Read2 (gcount f2)]\<rparr>
      in if gcount f1 \<noteq> gcount f2 then Return False s1
         else if gcount f1 = 0 then Break s1
         else if memcmp b1 b2 (gcount f1) \<noteq> 0
              then Return False (s1\<lparr>trace := trace s1 @ [Memcmp (gcount f1)]\<rparr>)
              else Continue (s1\<lparr>trace := trace s1 @ [Memcmp (gcount f1)]\<rparr>))"
    using assms(2,3) by (simp add: iteration_def Let_def)
  show ?thesis
  proof (cases "gcount f1 = gcount f2")
    case False
    with it assms(1) show ?thesis
      by (simp add: loop.simps [of n s] Let_def)
  next
    case True
    then have k: "k = gcount f1" using assms(4) by simp
    show ?thesis
    proof (cases "k = 0")
      case True
      then show ?thesis by simp
    next
      case False
      with it assms(1) m [OF \<open>gcount f1 = gcount f2\<close>] k \<open>gcount f1 = gcount f2\<close>
      show ?thesis
        by (auto simp: loop.simps [of n s] Let_def)
    qed
  qed
qed

theorem iteration_mismatch_returns_witness:
  "(stream_ok (file1 (entry_state [65, 84, 71, 84, 65] [65, 67, 71, 84, 65] 2)) \<and>
    stream_ok (file2 (entry_state [65, 84, 71, 84, 65] [65, 67, 71, 84, 65] 2))) \<and>
   loop 2 (entry_state [65, 84, 71, 84, 65] [65, 67, 71, 84, 65] 2) =
     (False,
      \<lparr>file1 = \<lparr>pending = [71, 84, 65], eofbit = False, failbit = False, gcount = 2\<rparr>,
       file2 = \<lparr>pending = [71, 84, 65], eofbit = False, failbit = False, gcount = 2\<rparr>,
       buffer1 = [65, 84], buffer2 = [65, 67],
       trace = [Read1 2, Read2 2, Memcmp 2]\<rparr>) \<and>
   iteration 2 (entry_state [65, 67, 71, 84, 65] [65, 67, 71, 84, 84] 2) =
     Continue
      \<lparr>file1 = \<lparr>pending = [71, 84, 65], eofbit = False, failbit = False, gcount = 2\<rparr>,
       file2 = \<lparr>pending = [71, 84, 84], eofbit = False, failbit = False, gcount = 2\<rparr>,
       buffer1 = [65, 67], buffer2 = [65, 67],
       trace = [Read1 2, Read2 2, Memcmp 2]\<rparr>"
  using iteration_mismatch_returns [of "entry_state [65, 84, 71, 84, 65] [65, 67, 71, 84, 65] 2" 2
      "\<lparr>pending = [71, 84, 65], eofbit = False, failbit = False, gcount = 2\<rparr>" "[65, 84]"
      "\<lparr>pending = [71, 84, 65], eofbit = False, failbit = False, gcount = 2\<rparr>" "[65, 67]" 2]
    iteration_mismatch_returns [of "entry_state [65, 67, 71, 84, 65] [65, 67, 71, 84, 84] 2" 2
      "\<lparr>pending = [71, 84, 65], eofbit = False, failbit = False, gcount = 2\<rparr>" "[65, 67]"
      "\<lparr>pending = [71, 84, 84], eofbit = False, failbit = False, gcount = 2\<rparr>" "[65, 67]" 2]
  by (simp add: entry_state_def ifstream_open_def stream_ok_def read_def good_def)

text \<open>
  C5. In every iteration of the loop, if the two reads obtain different numbers of bytes,
  the function returns false, in the state right after the two reads and without calling
  \<^verbatim>\<open>memcmp\<close>.
\<close>

theorem iteration_lengths_differ_returns:
  assumes "stream_ok (file1 s) \<and> stream_ok (file2 s)"
    and "read n (file1 s) (buffer1 s) = (f1, b1)"
    and "read n (file2 s) (buffer2 s) = (f2, b2)"
    and "gcount f1 \<noteq> gcount f2"
  shows "loop n s =
           (False,
            s\<lparr>file1 := f1, file2 := f2, buffer1 := b1, buffer2 := b2,
              trace := trace s @ [Read1 (gcount f1), Read2 (gcount f2)]\<rparr>)"
  using assms by (simp add: loop.simps [of n s] iteration_def Let_def)

theorem iteration_lengths_differ_returns_witness:
  "(stream_ok (file1 (entry_state [65, 67, 71] [65, 67, 71, 84, 65] 4)) \<and>
    stream_ok (file2 (entry_state [65, 67, 71] [65, 67, 71, 84, 65] 4))) \<and>
   loop 4 (entry_state [65, 67, 71] [65, 67, 71, 84, 65] 4) =
     (False,
      \<lparr>file1 = \<lparr>pending = [], eofbit = True, failbit = True, gcount = 3\<rparr>,
       file2 = \<lparr>pending = [65], eofbit = False, failbit = False, gcount = 4\<rparr>,
       buffer1 = [65, 67, 71, 0], buffer2 = [65, 67, 71, 84],
       trace = [Read1 3, Read2 4]\<rparr>)"
  using iteration_lengths_differ_returns [of "entry_state [65, 67, 71] [65, 67, 71, 84, 65] 4" 4
      "\<lparr>pending = [], eofbit = True, failbit = True, gcount = 3\<rparr>" "[65, 67, 71, 0]"
      "\<lparr>pending = [65], eofbit = False, failbit = False, gcount = 4\<rparr>" "[65, 67, 71, 84]"]
  by (simp add: entry_state_def ifstream_open_def stream_ok_def read_def good_def eval_nat_numeral)

text \<open>
  C6. For two regular files of length zero and every valid buffer size, \<^verbatim>\<open>compare_files\<close>
  returns true, and its trace is one read of no bytes on each stream: \<^verbatim>\<open>memcmp\<close> is
  never called.
\<close>

theorem compare_files_empty:
  assumes "regular_file fs file1_path []"
    and "regular_file fs file2_path []"
    and "valid_buffer_size mem n"
  shows "compare_files fs mem file1_path file2_path n = (Inr True, [Read1 0, Read2 0])"
proof -
  from assms have
    "open_read fs file1_path = Some []" "open_read fs file2_path = Some []"
    and sizes: "file_size fs file1_path = Some 0" "file_size fs file2_path = Some 0"
    by (simp_all add: regular_file_def)
  from compare_files_open [OF this(1,2), of mem n] sizes loop_empty_entry_state [of n]
    vector_char_valid [OF assms(3)]
  show ?thesis by simp
qed

theorem compare_files_empty_witness:
  "regular_file example_fs ''empty1.txt'' [] \<and> regular_file example_fs ''empty2.txt'' [] \<and>
   valid_buffer_size example_mem 4 \<and>
   compare_files example_fs example_mem ''empty1.txt'' ''empty2.txt'' 4 =
     (Inr True, [Read1 0, Read2 0])"
  using compare_files_empty [of example_fs "''empty1.txt''" "''empty2.txt''" example_mem 4]
  by (simp add: regular_file_def example_fs_def valid_buffer_size_def max_size_def
      example_mem_def)

text \<open>
  C7. For fixed paths, the answer of \<^verbatim>\<open>compare_files\<close> is the same for any two valid
  buffer sizes, on every file system.
\<close>

theorem compare_files_buffer_size_independent:
  assumes "valid_buffer_size mem n1" and "valid_buffer_size mem n2"
  shows "fst (compare_files fs mem file1_path file2_path n1) =
         fst (compare_files fs mem file1_path file2_path n2)"
proof -
  from assms have "0 < n1" "0 < n2"
    by (simp_all add: valid_buffer_size_def)
  with assms show ?thesis
    by (auto simp: compare_files_positive vector_char_valid split: option.splits)
qed

theorem compare_files_buffer_size_independent_witness:
  "valid_buffer_size example_mem 2 \<and> valid_buffer_size example_mem 5 \<and>
   fst (compare_files example_fs example_mem ''dna1.txt'' ''dna2.txt'' 2) =
   fst (compare_files example_fs example_mem ''dna1.txt'' ''dna2.txt'' 5)"
  using compare_files_buffer_size_independent [of example_mem 2 5 example_fs
          "''dna1.txt''" "''dna2.txt''"]
  by (simp add: valid_buffer_size_def max_size_def example_mem_def)

text \<open>
  C8. Exchanging the two paths does not change the answer of \<^verbatim>\<open>compare_files\<close>, for
  every file system, every pair of paths and every buffer size, zero included. The answer
  is the returned boolean or the exception, so the two orders also fail together.
\<close>

theorem compare_files_symmetric:
  "fst (compare_files fs mem file1_path file2_path n) =
   fst (compare_files fs mem file2_path file1_path n)"
proof (cases "n = 0")
  case True
  then show ?thesis
    by (auto simp: compare_files_zero split: option.splits)
next
  case False
  then have "0 < n" by simp
  then show ?thesis
    by (auto simp: compare_files_positive split: option.splits sum.splits)
qed

theorem compare_files_symmetric_witness:
  "fst (compare_files example_fs example_mem ''dna1.txt'' ''dna2.txt'' 2) = Inr False \<and>
   fst (compare_files example_fs example_mem ''dna2.txt'' ''dna1.txt'' 2) = Inr False \<and>
   fst (compare_files example_fs example_mem ''dna1.txt'' ''seqs'' 2) = Inl Filesystem_error \<and>
   fst (compare_files example_fs example_mem ''seqs'' ''dna1.txt'' 2) = Inl Filesystem_error"
  using compare_files_symmetric [of example_fs example_mem "''dna1.txt''" "''dna2.txt''" 2]
        compare_files_symmetric [of example_fs example_mem "''dna1.txt''" "''seqs''" 2]
  by (simp add: compare_files_positive example_fs_def vector_char_def max_size_def
      example_mem_def)

text \<open>
  C9. \<^verbatim>\<open>main\<close> returns 1 exactly when there are fewer than two path arguments, 0 exactly
  when \<^verbatim>\<open>compare_files\<close> was called and returned true, and 2 exactly when it was called
  and returned false; a path that cannot be opened is among the latter.
\<close>

theorem main_exit_code:
  "(main fs mem argv = Inr 1 \<longleftrightarrow> length argv < 3) \<and>
   (main fs mem argv = Inr 0 \<longleftrightarrow>
      3 \<le> length argv \<and>
      (\<exists>n. requested_buffer_size argv = Inr n \<and>
           fst (compare_files fs mem (argv ! 1) (argv ! 2) n) = Inr True)) \<and>
   (main fs mem argv = Inr 2 \<longleftrightarrow>
      3 \<le> length argv \<and>
      (\<exists>n. requested_buffer_size argv = Inr n \<and>
           fst (compare_files fs mem (argv ! 1) (argv ! 2) n) = Inr False)) \<and>
   (3 \<le> length argv \<and> (\<exists>n. requested_buffer_size argv = Inr n) \<and>
      (open_read fs (argv ! 1) = None \<or> open_read fs (argv ! 2) = None) \<longrightarrow>
      main fs mem argv = Inr 2)"
proof -
  have one: "main fs mem argv = Inr 1 \<longleftrightarrow> length argv < 3"
    by (auto simp: main_unfold split: sum.splits)
  have zero: "main fs mem argv = Inr 0 \<longleftrightarrow>
      3 \<le> length argv \<and>
      (\<exists>n. requested_buffer_size argv = Inr n \<and>
           fst (compare_files fs mem (argv ! 1) (argv ! 2) n) = Inr True)"
    by (auto simp: main_unfold split: sum.splits)
  have two: "main fs mem argv = Inr 2 \<longleftrightarrow>
      3 \<le> length argv \<and>
      (\<exists>n. requested_buffer_size argv = Inr n \<and>
           fst (compare_files fs mem (argv ! 1) (argv ! 2) n) = Inr False)"
    by (auto simp: main_unfold split: sum.splits)
  have "main fs mem argv = Inr 2"
    if "3 \<le> length argv" "requested_buffer_size argv = Inr n"
       "open_read fs (argv ! 1) = None \<or> open_read fs (argv ! 2) = None" for n
    using that by (simp add: main_unfold compare_files_not_open)
  with one zero two show ?thesis by blast
qed

theorem main_exit_code_witness:
  "main example_fs example_mem [''./compare'', ''dna1.txt''] = Inr 1 \<and>
   main example_fs example_mem [''./compare'', ''dna1.txt'', ''dna3.txt''] = Inr 0 \<and>
   main example_fs example_mem [''./compare'', ''dna1.txt'', ''dna2.txt''] = Inr 2 \<and>
   main example_fs example_mem [''./compare'', ''dna1.txt'', ''missing.txt''] = Inr 2"
  using main_exit_code [of example_fs example_mem "[''./compare'', ''dna1.txt'']"]
        main_exit_code [of example_fs example_mem "[''./compare'', ''dna1.txt'', ''dna3.txt'']"]
        main_exit_code [of example_fs example_mem "[''./compare'', ''dna1.txt'', ''dna2.txt'']"]
        main_exit_code [of example_fs example_mem "[''./compare'', ''dna1.txt'', ''missing.txt'']"]
  by (simp add: requested_buffer_size_default compare_files_positive example_fs_def
      vector_char_def max_size_def example_mem_def)

text \<open>
  C10. With a buffer size of zero, \<^verbatim>\<open>compare_files\<close> returns true for any two files
  that can be opened and whose metadata sizes are equal, whatever their bytes: the first
  iteration obtains no byte from either stream and leaves the loop, and \<^verbatim>\<open>memcmp\<close> is
  never called. In the example the two files differ in their last byte.
\<close>

theorem compare_files_zero_buffer:
  assumes "open_read fs file1_path = Some bytes1"
    and "open_read fs file2_path = Some bytes2"
    and "file_size fs file1_path = Some size1"
    and "file_size fs file2_path = Some size2"
    and "size1 = size2"
  shows "compare_files fs mem file1_path file2_path 0 = (Inr True, [Read1 0, Read2 0])"
  using assms by (simp add: compare_files_zero)

theorem compare_files_zero_buffer_witness:
  "open_read example_fs ''dna1.txt'' = Some [65, 67, 71, 84, 65] \<and>
   open_read example_fs ''dna2.txt'' = Some [65, 67, 71, 84, 84] \<and>
   file_size example_fs ''dna1.txt'' = Some 5 \<and>
   file_size example_fs ''dna2.txt'' = Some 5 \<and> (5::nat) = 5 \<and>
   compare_files example_fs example_mem ''dna1.txt'' ''dna2.txt'' 0 = (Inr True, [Read1 0, Read2 0])"
  using compare_files_zero_buffer [of example_fs "''dna1.txt''" "[65, 67, 71, 84, 65]"
          "''dna2.txt''" "[65, 67, 71, 84, 84]" 5 5 example_mem]
  by (simp add: example_fs_def)

end
